theory Spec2Isabelle
  imports Main
begin

section \<open>Python values used by the warehouse system\<close>

text \<open>
  The source is \<^verbatim>\<open>src/warehouse_system.py\<close>. Python \<^verbatim>\<open>str\<close> values are modelled as
  \<^typ>\<open>string\<close>, holding the UTF-8 bytes of the text: the program only compares,
  concatenates and joins strings, and UTF-8 encoding is injective and commutes with
  concatenation. Prices and quantities are Python integers, modelled as \<^typ>\<open>int\<close>.
  A raised exception is a value of type \<open>error\<close> on the left of a sum.
\<close>

datatype reason =
    UnknownProductType string  \<comment> \<open>the message of line 55, with the offending tag\<close>
  | NotInList                  \<comment> \<open>\<^verbatim>\<open>list.remove(x): x not in list\<close>\<close>

datatype error =
    ValueError reason
  | AttributeError             \<comment> \<open>a method the object's class does not define\<close>

text \<open>\<^verbatim>\<open>dict.get(key, default)\<close>.\<close>

definition dict_get :: "('k \<rightharpoonup> 'v) \<Rightarrow> 'k \<Rightarrow> 'v \<Rightarrow> 'v" where
  "dict_get d k dflt = (case d k of None \<Rightarrow> dflt | Some v \<Rightarrow> v)"

text \<open>\<^verbatim>\<open>str(i)\<close> for an integer: decimal digits, with a leading minus sign below zero.\<close>

definition digit_char :: "nat \<Rightarrow> char" where
  "digit_char d = char_of (48 + d)"

fun str_nat :: "nat \<Rightarrow> string" where
  "str_nat n = (if n < 10 then [digit_char n] else str_nat (n div 10) @ [digit_char (n mod 10)])"

declare str_nat.simps [simp del]

definition str_int :: "int \<Rightarrow> string" where
  "str_int i = (if i < 0 then CHR ''-'' # str_nat (nat (- i)) else str_nat (nat i))"

text \<open>\<^verbatim>\<open>sep.join(xs)\<close>.\<close>

fun join :: "string \<Rightarrow> string list \<Rightarrow> string" where
  "join sep [] = []"
| "join sep [x] = x"
| "join sep (x # y # ys) = x @ sep @ join sep (y # ys)"

text \<open>
  \<^verbatim>\<open>xs.remove(x)\<close>: drops the first item equal to \<open>x\<close> and raises \<^verbatim>\<open>ValueError\<close>
  when there is none. The equality test is a parameter, since it is the \<^verbatim>\<open>==\<close> of the
  items' class.
\<close>

fun list_remove :: "('a \<Rightarrow> 'a \<Rightarrow> bool) \<Rightarrow> 'a list \<Rightarrow> 'a \<Rightarrow> error + 'a list" where
  "list_remove eq [] x = Inl (ValueError NotInList)"
| "list_remove eq (y # ys) x =
     (if eq y x then Inr ys
      else (case list_remove eq ys x of
              Inl e \<Rightarrow> Inl e
            | Inr ys' \<Rightarrow> Inr (y # ys')))"

section \<open>Factory Method: products\<close>

text \<open>
  The three concrete subclasses of \<^verbatim>\<open>Product\<close> are the three constructors; each object
  has the fields \<^verbatim>\<open>name\<close> and \<^verbatim>\<open>price\<close> set by \<^verbatim>\<open>Product.__init__\<close>.
\<close>

datatype Product =
    Clothing (name: string) (price: int)
  | Electronics (name: string) (price: int)
  | Food (name: string) (price: int)

text \<open>The labels returned by \<^verbatim>\<open>get_type\<close> are Cyrillic words, given here by their UTF-8 bytes.\<close>

definition label_clothing :: string where
  "label_clothing =
     [CHR 0xD0, CHR 0x9E, CHR 0xD0, CHR 0xB4, CHR 0xD0, CHR 0xB5,
      CHR 0xD0, CHR 0xB6, CHR 0xD0, CHR 0xB4, CHR 0xD0, CHR 0xB0]"

definition label_electronics :: string where
  "label_electronics =
     [CHR 0xD0, CHR 0xAD, CHR 0xD0, CHR 0xBB, CHR 0xD0, CHR 0xB5, CHR 0xD0, CHR 0xBA,
      CHR 0xD1, CHR 0x82, CHR 0xD1, CHR 0x80, CHR 0xD0, CHR 0xBE, CHR 0xD0, CHR 0xBD,
      CHR 0xD0, CHR 0xB8, CHR 0xD0, CHR 0xBA, CHR 0xD0, CHR 0xB0]"

definition label_food :: string where
  "label_food =
     [CHR 0xD0, CHR 0x9F, CHR 0xD1, CHR 0x80, CHR 0xD0, CHR 0xBE, CHR 0xD0, CHR 0xB4,
      CHR 0xD1, CHR 0x83, CHR 0xD0, CHR 0xBA, CHR 0xD1, CHR 0x82, CHR 0xD1, CHR 0x8B]"

fun get_type :: "Product \<Rightarrow> string" where
  "get_type (Clothing n pr) = label_clothing"
| "get_type (Electronics n pr) = label_electronics"
| "get_type (Food n pr) = label_food"

text \<open>\<^verbatim>\<open>ProductFactory.create_product\<close>: a static method that touches no object.\<close>

definition create_product :: "string \<Rightarrow> string \<Rightarrow> int \<Rightarrow> error + Product" where
  "create_product product_type n pr =
     (if product_type = ''clothing'' then Inr (Clothing n pr)
      else if product_type = ''electronics'' then Inr (Electronics n pr)
      else if product_type = ''food'' then Inr (Food n pr)
      else Inl (ValueError (UnknownProductType product_type)))"

section \<open>Builder: orders\<close>

record Order =
  products :: "Product list"
  packaging :: "string option"

definition Order_init :: Order where
  "Order_init = \<lparr>products = [], packaging = None\<rparr>"

definition Order_add_product :: "Order \<Rightarrow> Product \<Rightarrow> Order" where
  "Order_add_product ord p = ord\<lparr>products := products ord @ [p]\<rparr>"

definition Order_set_packaging :: "Order \<Rightarrow> string \<Rightarrow> Order" where
  "Order_set_packaging ord pk = ord\<lparr>packaging := Some pk\<rparr>"

record OrderBuilder =
  order :: Order

definition OrderBuilder_init :: OrderBuilder where
  "OrderBuilder_init = \<lparr>order = Order_init\<rparr>"

text \<open>Both setters end with \<^verbatim>\<open>return self\<close>: the result is the updated builder.\<close>

definition add_product :: "OrderBuilder \<Rightarrow> Product \<Rightarrow> OrderBuilder" where
  "add_product b p = b\<lparr>order := Order_add_product (order b) p\<rparr>"

definition set_packaging :: "OrderBuilder \<Rightarrow> string \<Rightarrow> OrderBuilder" where
  "set_packaging b pk = b\<lparr>order := Order_set_packaging (order b) pk\<rparr>"

definition build :: "OrderBuilder \<Rightarrow> Order" where
  "build b = order b"

section \<open>Composite: product components\<close>

text \<open>
  A component is a leaf wrapping one product or a named group with an ordered list of
  children. Neither class defines \<^verbatim>\<open>__eq__\<close>, so \<^verbatim>\<open>==\<close> on components is object
  identity; every component therefore carries its identity \<open>oid\<close> (Python's
  \<^verbatim>\<open>id(obj)\<close>), which is all that \<^verbatim>\<open>list.remove\<close> looks at.
\<close>

datatype ProductComponent =
    SingleProduct (oid: nat) Product
  | ProductGroup (oid: nat) string "ProductComponent list"

definition component_eq :: "ProductComponent \<Rightarrow> ProductComponent \<Rightarrow> bool" where
  "component_eq a b = (oid a = oid b)"

fun add :: "ProductComponent \<Rightarrow> ProductComponent \<Rightarrow> error + ProductComponent" where
  "add (ProductGroup i n children) component = Inr (ProductGroup i n (children @ [component]))"
| "add (SingleProduct i p) component = Inl AttributeError"

fun remove :: "ProductComponent \<Rightarrow> ProductComponent \<Rightarrow> error + ProductComponent" where
  "remove (ProductGroup i n children) component =
     (case list_remove component_eq children component of
        Inl e \<Rightarrow> Inl e
      | Inr children' \<Rightarrow> Inr (ProductGroup i n children'))"
| "remove (SingleProduct i p) component = Inl AttributeError"

text \<open>The loop of \<^verbatim>\<open>ProductGroup.get_price\<close> starts from \<^verbatim>\<open>total = 0\<close> and adds each child's price.\<close>

fun get_price :: "ProductComponent \<Rightarrow> int" where
  "get_price (SingleProduct i p) = price p"
| "get_price (ProductGroup i n children) =
     fold (\<lambda>child total. total + get_price child) children 0"

section \<open>Visitor\<close>

text \<open>
  \<^verbatim>\<open>ProductVisitor\<close> is an interface with the one method \<^verbatim>\<open>visit\<close>. A visitor object
  is its state \<open>'v\<close>, and the method that dynamic dispatch selects is passed along with
  it. \<^verbatim>\<open>Product.accept\<close> calls \<^verbatim>\<open>visitor.visit(self)\<close>; a leaf forwards to its product; a
  group forwards to each child in list order.
\<close>

type_synonym 'v ProductVisitor = "'v \<Rightarrow> Product \<Rightarrow> 'v"

definition Product_accept :: "'v ProductVisitor \<Rightarrow> Product \<Rightarrow> 'v \<Rightarrow> 'v" where
  "Product_accept visit p visitor = visit visitor p"

fun accept :: "'v ProductVisitor \<Rightarrow> ProductComponent \<Rightarrow> 'v \<Rightarrow> 'v" where
  "accept visit (SingleProduct i p) visitor = Product_accept visit p visitor"
| "accept visit (ProductGroup i n children) visitor =
     fold (\<lambda>child. accept visit child) children visitor"

record CostCalculatorVisitor =
  total_cost :: int

definition CostCalculatorVisitor_init :: CostCalculatorVisitor where
  "CostCalculatorVisitor_init = \<lparr>total_cost = 0\<rparr>"

definition CostCalculatorVisitor_visit :: "CostCalculatorVisitor ProductVisitor" where
  "CostCalculatorVisitor_visit v p = v\<lparr>total_cost := total_cost v + price p\<rparr>"

record ReportVisitor =
  report_lines :: "string list"

definition ReportVisitor_init :: ReportVisitor where
  "ReportVisitor_init = \<lparr>report_lines = []\<rparr>"

text \<open>The three fixed parts of the report line (line 240), by their UTF-8 bytes.\<close>

definition txt_product :: string where
  "txt_product =
     [CHR 0xD0, CHR 0xA2, CHR 0xD0, CHR 0xBE, CHR 0xD0, CHR 0xB2, CHR 0xD0, CHR 0xB0,
      CHR 0xD1, CHR 0x80, CHR 0x3A, CHR 0x20]"

definition txt_type :: string where
  "txt_type =
     [CHR 0x2C, CHR 0x20, CHR 0xD0, CHR 0xA2, CHR 0xD0, CHR 0xB8, CHR 0xD0, CHR 0xBF,
      CHR 0x3A, CHR 0x20]"

definition txt_price :: string where
  "txt_price =
     [CHR 0x2C, CHR 0x20, CHR 0xD0, CHR 0xA6, CHR 0xD0, CHR 0xB5, CHR 0xD0, CHR 0xBD,
      CHR 0xD0, CHR 0xB0, CHR 0x3A, CHR 0x20]"

text \<open>The f-string of line 240, as a function of the visited product.\<close>

definition report_line :: "Product \<Rightarrow> string" where
  "report_line p =
     txt_product @ name p @ txt_type @ get_type p @ txt_price @ str_int (price p)"

definition ReportVisitor_visit :: "ReportVisitor ProductVisitor" where
  "ReportVisitor_visit v p =
     (let line = report_line p
      in v\<lparr>report_lines := report_lines v @ [line]\<rparr>)"

definition get_report :: "ReportVisitor \<Rightarrow> string" where
  "get_report v = join [CHR 0x0A] (report_lines v)"

section \<open>Inventory, database and the console\<close>

text \<open>
  Every \<^verbatim>\<open>print\<close> statement of the classes modelled here is one constructor, carrying
  the values its f-string interpolates, in the order they appear in the text.
\<close>

datatype Message =
    ProcessingSupply string int   \<comment> \<open>line 105: product name, quantity\<close>
  | SupplyProcessed               \<comment> \<open>line 109\<close>
  | RegisteringSupply string int  \<comment> \<open>line 112: product name, quantity\<close>
  | StockCheck string int         \<comment> \<open>line 117: product name, stock read back\<close>
  | Scanning string               \<comment> \<open>line 186: product name\<close>
  | Placing int string            \<comment> \<open>line 193: quantity, product name\<close>
  | CheckPassed                   \<comment> \<open>line 206\<close>
  | CheckFailed                   \<comment> \<open>line 209\<close>
  | ReceivingError                \<comment> \<open>line 183\<close>
  | MaintenanceDone               \<comment> \<open>line 217\<close>
  | SupplySaved string int        \<comment> \<open>line 268: product name, quantity\<close>
  | StorekeeperStarts             \<comment> \<open>line 280\<close>

record Inventory =
  stock :: "(string \<times> string) \<rightharpoonup> int"

definition Inventory_init :: Inventory where
  "Inventory_init = \<lparr>stock = Map.empty\<rparr>"

definition add_stock :: "Inventory \<Rightarrow> Product \<Rightarrow> int \<Rightarrow> Inventory" where
  "add_stock ivt p quantity =
     (let key = (get_type p, name p)
      in ivt\<lparr>stock := (stock ivt)(key \<mapsto> dict_get (stock ivt) key 0 + quantity)\<rparr>)"

definition get_stock :: "Inventory \<Rightarrow> Product \<Rightarrow> int" where
  "get_stock ivt p =
     (let key = (get_type p, name p)
      in dict_get (stock ivt) key 0)"

record Database =
  supplies :: "(string \<times> int) list"

definition Database_init :: Database where
  "Database_init = \<lparr>supplies = []\<rparr>"

text \<open>
  The facade, the receiving process and the users hold references to inventory and
  database objects, and two of them may hold the same one. The store maps each
  reference to the object's current state; the console is the output written so far.
\<close>

type_synonym ref = nat

record World =
  inventories :: "ref \<Rightarrow> Inventory"
  databases :: "ref \<Rightarrow> Database"
  console :: "Message list"

definition print :: "Message \<Rightarrow> World \<Rightarrow> World" where
  "print m w = w\<lparr>console := console w @ [m]\<rparr>"

definition inventory_add_stock :: "ref \<Rightarrow> Product \<Rightarrow> int \<Rightarrow> World \<Rightarrow> World" where
  "inventory_add_stock r p quantity w =
     w\<lparr>inventories := (inventories w)(r := add_stock (inventories w r) p quantity)\<rparr>"

definition save_supply :: "ref \<Rightarrow> Product \<Rightarrow> int \<Rightarrow> World \<Rightarrow> World" where
  "save_supply r p quantity w =
     (let db = databases w r;
          w1 = w\<lparr>databases := (databases w)(r := db\<lparr>supplies := supplies db @ [(name p, quantity)]\<rparr>)\<rparr>
      in print (SupplySaved (name p) quantity) w1)"

section \<open>Facade\<close>

record WarehouseFacade =
  inventory :: ref
  database :: ref

definition register_supply :: "WarehouseFacade \<Rightarrow> Product \<Rightarrow> int \<Rightarrow> World \<Rightarrow> World" where
  "register_supply f p quantity w =
     (let w1 = print (RegisteringSupply (name p) quantity) w
      in inventory_add_stock (inventory f) p quantity w1)"

definition check_inventory :: "WarehouseFacade \<Rightarrow> Product \<Rightarrow> World \<Rightarrow> World" where
  "check_inventory f p w =
     (let qty = get_stock (inventories w (inventory f)) p
      in print (StockCheck (name p) qty) w)"

definition save_to_database :: "WarehouseFacade \<Rightarrow> Product \<Rightarrow> int \<Rightarrow> World \<Rightarrow> World" where
  "save_to_database f p quantity w = save_supply (database f) p quantity w"

definition process_supply :: "WarehouseFacade \<Rightarrow> Product \<Rightarrow> int \<Rightarrow> World \<Rightarrow> World" where
  "process_supply f p quantity w =
     (let w1 = print (ProcessingSupply (name p) quantity) w;
          w2 = register_supply f p quantity w1;
          w3 = check_inventory f p w2;
          w4 = save_to_database f p quantity w3
      in print SupplyProcessed w4)"

section \<open>Template Method: receiving a product\<close>

text \<open>
  A receiving process is an object whose methods \<^verbatim>\<open>scan\<close>, \<^verbatim>\<open>check\<close>, \<^verbatim>\<open>store\<close> and
  \<^verbatim>\<open>maintenance\<close> are found by dynamic dispatch: the record holds the method each
  call of \<^verbatim>\<open>self.\<close> resolves to. \<^verbatim>\<open>check\<close> is abstract in the base class.
\<close>

record ProductReceivingProcess =
  scan :: "Product \<Rightarrow> World \<Rightarrow> World"
  check :: "Product \<Rightarrow> int \<Rightarrow> World \<Rightarrow> bool \<times> World"
  store :: "Product \<Rightarrow> int \<Rightarrow> World \<Rightarrow> World"
  maintenance :: "World \<Rightarrow> World"

definition receive_product :: "ProductReceivingProcess \<Rightarrow> Product \<Rightarrow> int \<Rightarrow> World \<Rightarrow> World" where
  "receive_product self p quantity w =
     (let w1 = scan self p w;
          (passed, w2) = check self p quantity w1
      in if passed then
           (let w3 = store self p quantity w2
            in maintenance self w3)
         else print ReceivingError w2)"

definition base_scan :: "Product \<Rightarrow> World \<Rightarrow> World" where
  "base_scan p w = print (Scanning (name p)) w"

definition base_store :: "Product \<Rightarrow> int \<Rightarrow> World \<Rightarrow> World" where
  "base_store p quantity w = print (Placing quantity (name p)) w"

definition base_maintenance :: "World \<Rightarrow> World" where
  "base_maintenance w = w"

definition storekeeper_check :: "Product \<Rightarrow> int \<Rightarrow> World \<Rightarrow> bool \<times> World" where
  "storekeeper_check p quantity w =
     (if quantity > 0 then (True, print CheckPassed w)
      else (False, print CheckFailed w))"

definition storekeeper_store :: "ref \<Rightarrow> Product \<Rightarrow> int \<Rightarrow> World \<Rightarrow> World" where
  "storekeeper_store ivt p quantity w =
     (let w1 = base_store p quantity w
      in inventory_add_stock ivt p quantity w1)"

definition storekeeper_maintenance :: "World \<Rightarrow> World" where
  "storekeeper_maintenance w = print MaintenanceDone w"

text \<open>
  \<^verbatim>\<open>StorekeeperReceivingProcess(inventory)\<close>: inherits \<^verbatim>\<open>scan\<close>, overrides the other
  three steps, and keeps the reference to the inventory it was given.
\<close>

definition StorekeeperReceivingProcess :: "ref \<Rightarrow> ProductReceivingProcess" where
  "StorekeeperReceivingProcess ivt =
     \<lparr>scan = base_scan,
      check = storekeeper_check,
      store = storekeeper_store ivt,
      maintenance = storekeeper_maintenance\<rparr>"

section \<open>The storekeeper\<close>

record Storekeeper =
  facade :: WarehouseFacade
  receiving_process :: ProductReceivingProcess

definition receive_supply :: "Storekeeper \<Rightarrow> Product \<Rightarrow> int \<Rightarrow> World \<Rightarrow> World" where
  "receive_supply self p quantity w =
     (let w1 = print StorekeeperStarts w;
          w2 = receive_product (receiving_process self) p quantity w1
      in process_supply (facade self) p quantity w2)"

section \<open>Notions used to state the properties\<close>

text \<open>
  The leaf products of a component, left to right: the products a pre-order walk of the
  tree meets. This function is not in the source; the statements about traversal refer
  to it.
\<close>

fun leaf_products :: "ProductComponent \<Rightarrow> Product list" where
  "leaf_products (SingleProduct i p) = [p]"
| "leaf_products (ProductGroup i n children) = concat (map leaf_products children)"

section \<open>The factory\<close>

text \<open>
  Claim C2. For each of the kind tags \<^verbatim>\<open>clothing\<close>, \<^verbatim>\<open>electronics\<close> and \<^verbatim>\<open>food\<close>, and
  every name and price, \<open>create_product\<close> returns a product of the matching class,
  built from that name and price, whose \<open>get_type\<close> is the fixed label of that class.
  For every other tag it raises \<^verbatim>\<open>ValueError\<close> and returns no product. The function
  takes and returns no state: it has no other effect.
\<close>

theorem create_product_kinds:
  "(product_type = ''clothing'' \<longrightarrow>
      create_product product_type n pr = Inr (Clothing n pr)
      \<and> get_type (Clothing n pr) = label_clothing)
   \<and> (product_type = ''electronics'' \<longrightarrow>
      create_product product_type n pr = Inr (Electronics n pr)
      \<and> get_type (Electronics n pr) = label_electronics)
   \<and> (product_type = ''food'' \<longrightarrow>
      create_product product_type n pr = Inr (Food n pr)
      \<and> get_type (Food n pr) = label_food)
   \<and> (product_type \<notin> {''clothing'', ''electronics'', ''food''} \<longrightarrow>
      create_product product_type n pr = Inl (ValueError (UnknownProductType product_type)))"
  by (simp add: create_product_def)

theorem create_product_kinds_witness:
  "create_product ''clothing'' ''Shirt'' 500 = Inr (Clothing ''Shirt'' 500)
   \<and> create_product ''electronics'' ''Laptop'' 50000 = Inr (Electronics ''Laptop'' 50000)
   \<and> create_product ''food'' ''Apple'' 50 = Inr (Food ''Apple'' 50)
   \<and> ''toy'' \<notin> {''clothing'', ''electronics'', ''food''}
   \<and> create_product ''toy'' ''Apple'' 50 = Inl (ValueError (UnknownProductType ''toy''))"
  using create_product_kinds [of "''clothing''" "''Shirt''" 500]
    create_product_kinds [of "''electronics''" "''Laptop''" 50000]
    create_product_kinds [of "''food''" "''Apple''" 50]
    create_product_kinds [of "''toy''" "''Apple''" 50]
  by simp

section \<open>The order builder\<close>

text \<open>
  Claim C8. On a fresh builder, adding \<open>a\<close>, adding \<open>b\<close>, setting the packaging to
  \<open>X\<close> and building returns the order whose products are \<open>[a, b]\<close>, in that order, and
  whose packaging is \<open>X\<close>.
\<close>

theorem builder_round_trip:
  "build (set_packaging (add_product (add_product OrderBuilder_init a) b) X)
     = \<lparr>products = [a, b], packaging = Some X\<rparr>"
  by (simp add: build_def set_packaging_def add_product_def OrderBuilder_init_def
      Order_init_def Order_add_product_def Order_set_packaging_def)

section \<open>Prices of composite trees\<close>

lemma fold_add_sum_list:
  "fold (\<lambda>x total. total + f x) xs (a::int) = a + sum_list (map f xs)"
  by (induction xs arbitrary: a) simp_all

lemma get_price_leaves: "get_price t = sum_list (map price (leaf_products t))"
proof (induction t)
  case (SingleProduct i p)
  show ?case by simp
next
  case (ProductGroup i n children)
  have "sum_list (map get_price children)
          = sum_list (map price (concat (map leaf_products children)))"
    using ProductGroup.IH by (induction children) simp_all
  then show ?case by (simp add: fold_add_sum_list)
qed

text \<open>
  Claim C3. The price of a group is the sum of the prices of its children, at every
  level of nesting; a group without children has price zero; and so the price of any
  tree is the sum of the prices of its leaf products.
\<close>

theorem get_price_group:
  "get_price (ProductGroup i n children) = sum_list (map get_price children)
   \<and> get_price (ProductGroup i n []) = 0
   \<and> get_price t = sum_list (map price (leaf_products t))"
  by (simp add: fold_add_sum_list get_price_leaves [symmetric])

section \<open>Traversal by visitors\<close>

text \<open>Accepting any visitor on a tree visits the leaf products from left to right.\<close>

lemma fold_accept_leaves:
  assumes "\<And>c v. c \<in> set cs \<Longrightarrow>
             accept visit c v = fold (\<lambda>p v. visit v p) (leaf_products c) v"
  shows "fold (\<lambda>child. accept visit child) cs v
           = fold (\<lambda>p v. visit v p) (concat (map leaf_products cs)) v"
  using assms by (induction cs arbitrary: v) simp_all

lemma accept_leaves:
  "accept visit t v = fold (\<lambda>p v. visit v p) (leaf_products t) v"
proof (induction t arbitrary: v)
  case (SingleProduct i p)
  show ?case by (simp add: Product_accept_def)
next
  case (ProductGroup i n children)
  show ?case
    using fold_accept_leaves [of children visit v] ProductGroup.IH by simp
qed

lemma fold_cost_visit:
  "total_cost (fold (\<lambda>p v. CostCalculatorVisitor_visit v p) ps v)
     = total_cost v + sum_list (map price ps)"
  by (induction ps arbitrary: v) (simp_all add: CostCalculatorVisitor_visit_def)

text \<open>
  Claim C4. Accepting a fresh cost calculator (total 0) on the root of any tree leaves
  its total equal to the sum of the prices of all leaf products of the tree, whatever
  the grouping.
\<close>

theorem cost_visitor_total:
  "total_cost (accept CostCalculatorVisitor_visit t CostCalculatorVisitor_init)
     = sum_list (map price (leaf_products t))"
  by (simp add: accept_leaves fold_cost_visit CostCalculatorVisitor_init_def)

lemma fold_report_visit:
  "report_lines (fold (\<lambda>p v. ReportVisitor_visit v p) ps v)
     = report_lines v @ map report_line ps"
  by (induction ps arbitrary: v) (simp_all add: ReportVisitor_visit_def)

lemma report_lines_accept:
  "report_lines (accept ReportVisitor_visit t v)
     = report_lines v @ map report_line (leaf_products t)"
  by (simp add: accept_leaves fold_report_visit)

lemma join_append:
  "join sep (xs @ ys) =
     (if xs = [] then join sep ys
      else if ys = [] then join sep xs
      else join sep xs @ sep @ join sep ys)"
proof (induction sep xs rule: join.induct)
  case (1 sep)
  show ?case by simp
next
  case (2 sep x)
  show ?case by (cases ys) simp_all
next
  case (3 sep x y zs)
  then show ?case by simp
qed

text \<open>
  Claim C5. Accepting a fresh report visitor on a group with children \<open>[A, B]\<close>
  collects the lines of \<open>A\<close> followed by the lines of \<open>B\<close>; for any list of children
  the lines are those of the children, concatenated in list order; the lines of any
  tree are the report lines of its leaf products from left to right; \<open>add\<close> puts a
  new child at the end of the list, so list order is insertion order. In the string
  returned by \<open>get_report\<close>, the report of \<open>A\<close> comes first, then a newline, then the
  report of \<open>B\<close> (when one of the two has no leaf, the string is the report of the other).
\<close>

theorem report_visitor_order:
  "report_lines (accept ReportVisitor_visit (ProductGroup i n [A, B]) ReportVisitor_init)
     = report_lines (accept ReportVisitor_visit A ReportVisitor_init)
       @ report_lines (accept ReportVisitor_visit B ReportVisitor_init)
   \<and> report_lines (accept ReportVisitor_visit (ProductGroup i n children) ReportVisitor_init)
     = concat (map (\<lambda>c. report_lines (accept ReportVisitor_visit c ReportVisitor_init)) children)
   \<and> report_lines (accept ReportVisitor_visit t ReportVisitor_init)
     = map report_line (leaf_products t)
   \<and> add (ProductGroup i n children) c = Inr (ProductGroup i n (children @ [c]))
   \<and> get_report (accept ReportVisitor_visit (ProductGroup i n [A, B]) ReportVisitor_init)
     = (if leaf_products A = [] then get_report (accept ReportVisitor_visit B ReportVisitor_init)
        else if leaf_products B = [] then get_report (accept ReportVisitor_visit A ReportVisitor_init)
        else get_report (accept ReportVisitor_visit A ReportVisitor_init) @ [CHR 0x0A]
             @ get_report (accept ReportVisitor_visit B ReportVisitor_init))"
proof -
  have L: "report_lines (accept ReportVisitor_visit c ReportVisitor_init)
             = map report_line (leaf_products c)" for c
    by (simp add: report_lines_accept ReportVisitor_init_def)
  have G: "get_report (accept ReportVisitor_visit c ReportVisitor_init)
             = join [CHR 0x0A] (map report_line (leaf_products c))" for c
    by (simp add: get_report_def L)
  show ?thesis
    unfolding L G by (simp add: join_append map_concat comp_def)
qed

section \<open>Removing a child from a group\<close>

lemma list_remove_absent:
  "\<forall>y\<in>set ys. \<not> eq y x \<Longrightarrow> list_remove eq ys x = Inl (ValueError NotInList)"
  by (induction ys) simp_all

lemma list_remove_first:
  "\<forall>y\<in>set pre. \<not> eq y x \<Longrightarrow> eq c x \<Longrightarrow>
     list_remove eq (pre @ c # post) x = Inr (pre @ post)"
  by (induction pre) simp_all

text \<open>
  Claim C10. \<open>remove\<close> on a group raises \<^verbatim>\<open>ValueError\<close> when no child is the given
  component (it is not a no-op). When some child is the component, the first such
  child is dropped and the children before and after it stay as they were, in order.
\<close>

theorem remove_first_or_error:
  "((\<forall>c\<in>set children. oid c \<noteq> oid component) \<longrightarrow>
       remove (ProductGroup i n children) component = Inl (ValueError NotInList))
   \<and> ((\<forall>c\<in>set pre. oid c \<noteq> oid component) \<and> oid c' = oid component \<longrightarrow>
       remove (ProductGroup i n (pre @ c' # post)) component
         = Inr (ProductGroup i n (pre @ post)))"
  by (simp add: list_remove_absent list_remove_first component_eq_def)

theorem remove_first_or_error_witness:
  "oid (SingleProduct 1 (Food ''Apple'' 50)) \<noteq> oid (SingleProduct 2 (Food ''Apple'' 50))
   \<and> remove (ProductGroup 0 ''Box'' [SingleProduct 1 (Food ''Apple'' 50)])
        (SingleProduct 2 (Food ''Apple'' 50)) = Inl (ValueError NotInList)
   \<and> oid (SingleProduct 1 (Food ''Apple'' 50)) \<noteq> oid (SingleProduct 2 (Food ''Pear'' 7))
   \<and> oid (SingleProduct 2 (Food ''Pear'' 7)) = oid (SingleProduct 2 (Food ''Pear'' 7))
   \<and> remove (ProductGroup 0 ''Box''
        [SingleProduct 1 (Food ''Apple'' 50), SingleProduct 2 (Food ''Pear'' 7),
         SingleProduct 3 (Food ''Plum'' 9), SingleProduct 2 (Food ''Pear'' 7)])
        (SingleProduct 2 (Food ''Pear'' 7))
      = Inr (ProductGroup 0 ''Box''
        [SingleProduct 1 (Food ''Apple'' 50), SingleProduct 3 (Food ''Plum'' 9),
         SingleProduct 2 (Food ''Pear'' 7)])"
  using remove_first_or_error [where children = "[SingleProduct 1 (Food ''Apple'' 50)]"
      and component = "SingleProduct 2 (Food ''Apple'' 50)" and i = 0 and n = "''Box''"
      and pre = "[]" and c' = "SingleProduct 2 (Food ''Apple'' 50)" and post = "[]"]
    remove_first_or_error [where children = "[]"
      and component = "SingleProduct 2 (Food ''Pear'' 7)" and i = 0 and n = "''Box''"
      and pre = "[SingleProduct 1 (Food ''Apple'' 50)]"
      and c' = "SingleProduct 2 (Food ''Pear'' 7)"
      and post = "[SingleProduct 3 (Food ''Plum'' 9), SingleProduct 2 (Food ''Pear'' 7)]"]
  by simp

section \<open>The inventory ledger\<close>

lemma get_stock_add_stock:
  "get_stock (add_stock ivt p quantity) p' =
     (if (get_type p', name p') = (get_type p, name p) then get_stock ivt p' + quantity
      else get_stock ivt p')"
  by (simp add: get_stock_def add_stock_def dict_get_def Let_def)

lemma stock_add_stock:
  "stock (add_stock ivt p quantity) =
     (stock ivt)((get_type p, name p) \<mapsto> get_stock ivt p + quantity)"
  by (simp add: get_stock_def add_stock_def Let_def)

lemma add_stock_twice:
  "add_stock (add_stock ivt p q) p q
     = ivt\<lparr>stock := (stock ivt)((get_type p, name p) \<mapsto> get_stock ivt p + 2 * q)\<rparr>"
  by (simp add: add_stock_def get_stock_def dict_get_def Let_def add.commute)

lemma get_stock_nonneg:
  "\<forall>v\<in>ran (stock ivt). 0 \<le> v \<Longrightarrow> 0 \<le> get_stock ivt p"
  by (auto simp: get_stock_def dict_get_def ran_def split: option.splits)

text \<open>
  Claim C7, as stated, fails: \<open>add_stock\<close> adds whatever integer it is given. On the
  empty ledger, where every stock is zero, adding \<open>-5\<close> apples stores the negative
  quantity \<open>-5\<close>, and the stock of apples has decreased.
\<close>

theorem add_stock_negative_counterexample:
  "get_stock Inventory_init (Food ''Apple'' 50) = 0
   \<and> stock (add_stock Inventory_init (Food ''Apple'' 50) (- 5)) (label_food, ''Apple'') = Some (- 5)
   \<and> get_stock (add_stock Inventory_init (Food ''Apple'' 50) (- 5)) (Food ''Apple'' 50)
       < get_stock Inventory_init (Food ''Apple'' 50)
   \<and> get_stock (add_stock Inventory_init (Food ''Apple'' 50) (- 5)) (Food ''Apple'' 50) < 0"
  by (simp add: get_stock_def add_stock_def dict_get_def Inventory_init_def)

lemma add_stock_keeps_nonneg:
  assumes "0 \<le> quantity" and "\<forall>v\<in>ran (stock ivt). 0 \<le> v"
  shows "\<forall>v\<in>ran (stock (add_stock ivt p quantity)). 0 \<le> v"
proof
  fix v assume "v \<in> ran (stock (add_stock ivt p quantity))"
  then obtain k where
    k: "((stock ivt)((get_type p, name p) \<mapsto> get_stock ivt p + quantity)) k = Some v"
    by (auto simp: ran_def stock_add_stock)
  have nonneg: "0 \<le> get_stock ivt p"
    using assms(2) by (rule get_stock_nonneg)
  show "0 \<le> v"
  proof (cases "k = (get_type p, name p)")
    case True
    with k nonneg assms(1) show ?thesis by simp
  next
    case False
    with k have "stock ivt k = Some v" by simp
    then have "v \<in> ran (stock ivt)" by (rule ranI)
    with assms(2) show ?thesis by blast
  qed
qed

text \<open>
  Claim C7, amended. For every ledger and every integer quantity, negative ones
  included, \<open>add_stock\<close> replaces the entry of the product's (category, name) key by its
  previous stock (zero when absent) plus the quantity and changes nothing else: the
  product's stock moves by exactly the quantity and the stock of every other key stays.
  \<open>get_stock\<close> of an absent key is zero, and of a present key the stored quantity. When
  the quantity is not negative, no product's stock decreases; when moreover all stored
  quantities are non-negative, they stay so.
\<close>

theorem add_stock_ledger:
  "add_stock ivt p quantity
     = ivt\<lparr>stock := (stock ivt)((get_type p, name p) \<mapsto> get_stock ivt p + quantity)\<rparr>
   \<and> get_stock (add_stock ivt p quantity) p = get_stock ivt p + quantity
   \<and> (\<forall>p'. (get_type p', name p') \<noteq> (get_type p, name p) \<longrightarrow>
         get_stock (add_stock ivt p quantity) p' = get_stock ivt p')
   \<and> (\<forall>p'. stock ivt (get_type p', name p') = None \<longrightarrow> get_stock ivt p' = 0)
   \<and> (\<forall>p' v. stock ivt (get_type p', name p') = Some v \<longrightarrow> get_stock ivt p' = v)
   \<and> (0 \<le> quantity \<longrightarrow>
         (\<forall>p'. get_stock ivt p' \<le> get_stock (add_stock ivt p quantity) p'))
   \<and> (0 \<le> quantity \<and> (\<forall>v\<in>ran (stock ivt). 0 \<le> v) \<longrightarrow>
         (\<forall>v\<in>ran (stock (add_stock ivt p quantity)). 0 \<le> v))"
proof -
  have upd: "add_stock ivt p quantity
     = ivt\<lparr>stock := (stock ivt)((get_type p, name p) \<mapsto> get_stock ivt p + quantity)\<rparr>"
    by (simp add: add_stock_def get_stock_def Let_def)
  have own: "get_stock (add_stock ivt p quantity) p = get_stock ivt p + quantity"
    by (simp add: get_stock_add_stock)
  have others: "\<forall>p'. (get_type p', name p') \<noteq> (get_type p, name p) \<longrightarrow>
         get_stock (add_stock ivt p quantity) p' = get_stock ivt p'"
    by (simp add: get_stock_add_stock)
  have absent: "\<forall>p'. stock ivt (get_type p', name p') = None \<longrightarrow> get_stock ivt p' = 0"
    by (simp add: get_stock_def dict_get_def)
  have present: "\<forall>p' v. stock ivt (get_type p', name p') = Some v \<longrightarrow> get_stock ivt p' = v"
    by (simp add: get_stock_def dict_get_def)
  have mono: "0 \<le> quantity \<longrightarrow>
         (\<forall>p'. get_stock ivt p' \<le> get_stock (add_stock ivt p quantity) p')"
    by (simp add: get_stock_add_stock)
  have inv: "0 \<le> quantity \<and> (\<forall>v\<in>ran (stock ivt). 0 \<le> v) \<longrightarrow>
         (\<forall>v\<in>ran (stock (add_stock ivt p quantity)). 0 \<le> v)"
    using add_stock_keeps_nonneg by blast
  show ?thesis
    using upd own others absent present mono inv by blast
qed

theorem add_stock_ledger_witness:
  "(0::int) \<le> 5
   \<and> ran (stock (add_stock Inventory_init (Food ''Apple'' 50) 100)) = {100}
   \<and> get_stock (add_stock Inventory_init (Food ''Apple'' 50) 100) (Food ''Apple'' 50) = 100
   \<and> get_stock (add_stock (add_stock Inventory_init (Food ''Apple'' 50) 100)
        (Food ''Apple'' 50) 5) (Food ''Apple'' 50) = 105
   \<and> ran (stock (add_stock (add_stock Inventory_init (Food ''Apple'' 50) 100)
        (Food ''Apple'' 50) 5)) = {105}
   \<and> 0 \<le> get_stock (add_stock (add_stock Inventory_init (Food ''Apple'' 50) 100)
        (Food ''Apple'' 50) 5) (Food ''Apple'' 50)
   \<and> get_stock (add_stock (add_stock Inventory_init (Food ''Apple'' 50) 100)
        (Food ''Apple'' 50) (- 5)) (Food ''Apple'' 50) = 95
   \<and> (label_clothing, ''Shirt'') \<noteq> (label_food, ''Apple'')
   \<and> stock (add_stock Inventory_init (Food ''Apple'' 50) 100) (label_clothing, ''Shirt'') = None
   \<and> get_stock (add_stock (add_stock Inventory_init (Food ''Apple'' 50) 100)
        (Food ''Apple'' 50) 5) (Clothing ''Shirt'' 500) = 0"
proof -
  let ?apple = "Food ''Apple'' 50"
  let ?shirt = "Clothing ''Shirt'' 500"
  let ?l = "add_stock Inventory_init ?apple 100"
  have h1: "(0::int) \<le> 5" by simp
  have r: "ran (stock ?l) = {100}"
    by (simp add: add_stock_def dict_get_def Inventory_init_def)
  have h2: "\<forall>v\<in>ran (stock ?l). 0 \<le> v"
    unfolding r by simp
  have ne: "(label_clothing, ''Shirt'') \<noteq> (label_food, ''Apple'')" by simp
  have ne': "(get_type ?shirt, name ?shirt) \<noteq> (get_type ?apple, name ?apple)" by simp
  have none: "stock ?l (label_clothing, ''Shirt'') = None"
    by (simp add: add_stock_def dict_get_def Inventory_init_def)
  have none': "stock ?l (get_type ?shirt, name ?shirt) = None"
    using none by simp
  have start: "get_stock ?l ?apple = 100"
    by (simp add: get_stock_def add_stock_def dict_get_def Inventory_init_def)
  note plus = add_stock_ledger [of ?l ?apple 5]
  note minus = add_stock_ledger [of ?l ?apple "- 5"]
  from plus have "get_stock (add_stock ?l ?apple 5) ?apple = get_stock ?l ?apple + 5"
    by blast
  with start have g5: "get_stock (add_stock ?l ?apple 5) ?apple = 105" by simp
  from minus have "get_stock (add_stock ?l ?apple (- 5)) ?apple = get_stock ?l ?apple + (- 5)"
    by blast
  with start have g95: "get_stock (add_stock ?l ?apple (- 5)) ?apple = 95" by simp
  from plus h1 h2 have inv: "\<forall>v\<in>ran (stock (add_stock ?l ?apple 5)). 0 \<le> v" by blast
  then have nn: "0 \<le> get_stock (add_stock ?l ?apple 5) ?apple"
    by (rule get_stock_nonneg)
  have r5: "ran (stock (add_stock ?l ?apple 5)) = {105}"
    by (simp add: add_stock_def dict_get_def Inventory_init_def)
  from plus none' have z: "get_stock ?l ?shirt = 0" by blast
  from plus ne' have "get_stock (add_stock ?l ?apple 5) ?shirt = get_stock ?l ?shirt" by blast
  with z have s0: "get_stock (add_stock ?l ?apple 5) ?shirt = 0" by simp
  show ?thesis
    using h1 r start g5 r5 nn g95 ne none s0 by blast
qed

section \<open>Receiving, the facade and the storekeeper\<close>

lemmas world_defs = print_def inventory_add_stock_def save_supply_def

lemmas facade_defs = process_supply_def register_supply_def check_inventory_def
  save_to_database_def

lemmas receiving_defs = receive_product_def StorekeeperReceivingProcess_def base_scan_def
  base_store_def storekeeper_check_def storekeeper_store_def storekeeper_maintenance_def

text \<open>
  Claim C1. With a quantity above zero, the storekeeper's receiving process scans,
  passes the check, stores and runs maintenance, in that order: the one change to the
  store is that the process's inventory has the product's (category, name) entry
  raised by exactly the quantity. With a quantity of zero or less it scans, fails the
  check and reports the error: no inventory or database changes, nothing is stored.
\<close>

theorem storekeeper_receive_product:
  "(0 < quantity \<longrightarrow>
      receive_product (StorekeeperReceivingProcess r) p quantity w
        = w\<lparr>inventories := (inventories w)(r := add_stock (inventories w r) p quantity),
            console := console w @
              [Scanning (name p), CheckPassed, Placing quantity (name p), MaintenanceDone]\<rparr>
      \<and> stock (add_stock (inventories w r) p quantity)
        = (stock (inventories w r))((get_type p, name p) \<mapsto> get_stock (inventories w r) p + quantity)
      \<and> get_stock (add_stock (inventories w r) p quantity) p
        = get_stock (inventories w r) p + quantity)
   \<and> (quantity \<le> 0 \<longrightarrow>
      receive_product (StorekeeperReceivingProcess r) p quantity w
        = w\<lparr>console := console w @ [Scanning (name p), CheckFailed, ReceivingError]\<rparr>)"
  by (simp add: receiving_defs world_defs get_stock_add_stock stock_add_stock)

theorem storekeeper_receive_product_witness:
  "(0::int) < 10
   \<and> get_stock (inventories (receive_product (StorekeeperReceivingProcess 0) (Food ''Apple'' 50) 10
        \<lparr>inventories = (\<lambda>r. Inventory_init), databases = (\<lambda>r. Database_init), console = []\<rparr>) 0)
        (Food ''Apple'' 50) = 10
   \<and> (0::int) \<le> 0
   \<and> receive_product (StorekeeperReceivingProcess 0) (Food ''Apple'' 50) 0
        \<lparr>inventories = (\<lambda>r. Inventory_init), databases = (\<lambda>r. Database_init), console = []\<rparr>
      = \<lparr>inventories = (\<lambda>r. Inventory_init), databases = (\<lambda>r. Database_init),
         console = [Scanning ''Apple'', CheckFailed, ReceivingError]\<rparr>"
  using storekeeper_receive_product [of 10 0 "Food ''Apple'' 50"
      "\<lparr>inventories = (\<lambda>r. Inventory_init), databases = (\<lambda>r. Database_init), console = []\<rparr>"]
    storekeeper_receive_product [of 0 0 "Food ''Apple'' 50"
      "\<lparr>inventories = (\<lambda>r. Inventory_init), databases = (\<lambda>r. Database_init), console = []\<rparr>"]
  by (simp add: get_stock_def add_stock_def dict_get_def Inventory_init_def)

text \<open>
  Claim C6. \<open>process_supply\<close> changes the store in exactly three places. The facade's
  inventory gets one \<open>add_stock\<close> of the quantity, which raises the product's
  (category, name) entry by the quantity and nothing else; the facade's database gets
  the one record (product name, quantity) appended; the console gets five lines. The
  stock printed by the read-back is the old stock plus the quantity, and its line
  stands after the registration line and before the line of the database: increment,
  read-back and record happen in this order. No other inventory or database changes.
\<close>

theorem process_supply_effect:
  "process_supply f p quantity w
     = w\<lparr>inventories := (inventories w)
            (inventory f := add_stock (inventories w (inventory f)) p quantity),
         databases := (databases w)
            (database f := (databases w (database f))
               \<lparr>supplies := supplies (databases w (database f)) @ [(name p, quantity)]\<rparr>),
         console := console w @
            [ProcessingSupply (name p) quantity,
             RegisteringSupply (name p) quantity,
             StockCheck (name p) (get_stock (inventories w (inventory f)) p + quantity),
             SupplySaved (name p) quantity,
             SupplyProcessed]\<rparr>
   \<and> stock (add_stock (inventories w (inventory f)) p quantity)
     = (stock (inventories w (inventory f)))
         ((get_type p, name p) \<mapsto> get_stock (inventories w (inventory f)) p + quantity)"
  by (simp add: facade_defs world_defs get_stock_add_stock stock_add_stock Let_def)

text \<open>
  When the storekeeper's receiving process works on another inventory object than the
  facade, each of the two inventories receives the quantity once.
\<close>

lemma receive_supply_separate_inventories:
  assumes "0 < quantity"
    and "receiving_process self = StorekeeperReceivingProcess r"
    and "r \<noteq> inventory (facade self)"
  shows "inventories (receive_supply self p quantity w)
     = (inventories w)
         (r := add_stock (inventories w r) p quantity,
          inventory (facade self) := add_stock (inventories w (inventory (facade self))) p quantity)"
  using assms
  by (simp add: receive_supply_def facade_defs receiving_defs world_defs Let_def)

text \<open>
  Claim C9, as stated, fails: a storekeeper can be built from any facade and any
  receiving process. When the receiving process holds another inventory object
  (here number 1) than the facade (number 0), a supply of 10 raises the stock in each
  of the two inventories by 10, and in neither by twice 10.
\<close>

theorem receive_supply_separate_counterexample:
  "(0::int) < 10
   \<and> get_stock (inventories
         (receive_supply
            \<lparr>facade = \<lparr>inventory = 0, database = 0\<rparr>,
             receiving_process = StorekeeperReceivingProcess 1\<rparr>
            (Clothing ''Shirt'' 500) 10
            \<lparr>inventories = (\<lambda>r. Inventory_init), databases = (\<lambda>r. Database_init),
             console = []\<rparr>) 0)
        (Clothing ''Shirt'' 500)
      \<noteq> get_stock (inventories
            \<lparr>inventories = (\<lambda>r. Inventory_init), databases = (\<lambda>r. Database_init),
             console = []\<rparr> 0)
          (Clothing ''Shirt'' 500) + 2 * 10
   \<and> get_stock (inventories
         (receive_supply
            \<lparr>facade = \<lparr>inventory = 0, database = 0\<rparr>,
             receiving_process = StorekeeperReceivingProcess 1\<rparr>
            (Clothing ''Shirt'' 500) 10
            \<lparr>inventories = (\<lambda>r. Inventory_init), databases = (\<lambda>r. Database_init),
             console = []\<rparr>) 1)
        (Clothing ''Shirt'' 500)
      \<noteq> get_stock (inventories
            \<lparr>inventories = (\<lambda>r. Inventory_init), databases = (\<lambda>r. Database_init),
             console = []\<rparr> 1)
          (Clothing ''Shirt'' 500) + 2 * 10
   \<and> get_stock (inventories
         (receive_supply
            \<lparr>facade = \<lparr>inventory = 0, database = 0\<rparr>,
             receiving_process = StorekeeperReceivingProcess 1\<rparr>
            (Clothing ''Shirt'' 500) 10
            \<lparr>inventories = (\<lambda>r. Inventory_init), databases = (\<lambda>r. Database_init),
             console = []\<rparr>) 0)
        (Clothing ''Shirt'' 500) = 10
   \<and> get_stock (inventories
         (receive_supply
            \<lparr>facade = \<lparr>inventory = 0, database = 0\<rparr>,
             receiving_process = StorekeeperReceivingProcess 1\<rparr>
            (Clothing ''Shirt'' 500) 10
            \<lparr>inventories = (\<lambda>r. Inventory_init), databases = (\<lambda>r. Database_init),
             console = []\<rparr>) 1)
        (Clothing ''Shirt'' 500) = 10"
  by (simp add: receive_supply_def facade_defs receiving_defs world_defs Let_def
      get_stock_def add_stock_def dict_get_def Inventory_init_def)

text \<open>
  Claim C9, amended. Take a storekeeper whose receiving process is the storekeeper's
  process on the very inventory object of its facade (as the program wires them), and
  a quantity above zero. Then \<open>receive_supply\<close> raises the product's (category, name)
  entry of that inventory by exactly twice the quantity, once in the store step of the
  receiving process and once in the facade's registration, as the console shows; it
  appends exactly one record (product name, quantity) to the facade's database, and
  changes no other inventory or database.
\<close>

theorem receive_supply_adds_twice:
  assumes "0 < quantity"
    and "receiving_process self = StorekeeperReceivingProcess (inventory (facade self))"
  shows "receive_supply self p quantity w
     = w\<lparr>inventories := (inventories w)
            (inventory (facade self) := (inventories w (inventory (facade self)))
               \<lparr>stock := (stock (inventories w (inventory (facade self))))
                  ((get_type p, name p) \<mapsto>
                     get_stock (inventories w (inventory (facade self))) p + 2 * quantity)\<rparr>),
         databases := (databases w)
            (database (facade self) := (databases w (database (facade self)))
               \<lparr>supplies := supplies (databases w (database (facade self))) @ [(name p, quantity)]\<rparr>),
         console := console w @
            [StorekeeperStarts,
             Scanning (name p), CheckPassed, Placing quantity (name p), MaintenanceDone,
             ProcessingSupply (name p) quantity,
             RegisteringSupply (name p) quantity,
             StockCheck (name p) (get_stock (inventories w (inventory (facade self))) p + 2 * quantity),
             SupplySaved (name p) quantity,
             SupplyProcessed]\<rparr>
   \<and> get_stock (inventories (receive_supply self p quantity w) (inventory (facade self))) p
     = get_stock (inventories w (inventory (facade self))) p + 2 * quantity"
proof -
  let ?r = "inventory (facade self)"
  have eq: "inventories (receive_supply self p quantity w) ?r
              = add_stock (add_stock (inventories w ?r) p quantity) p quantity"
    using assms
    by (simp add: receive_supply_def facade_defs receiving_defs world_defs Let_def)
  have stock: "get_stock (inventories (receive_supply self p quantity w) ?r) p
                 = get_stock (inventories w ?r) p + 2 * quantity"
    unfolding eq by (simp add: get_stock_add_stock)
  have world: "receive_supply self p quantity w
     = w\<lparr>inventories := (inventories w)
            (?r := (inventories w ?r)
               \<lparr>stock := (stock (inventories w ?r))
                  ((get_type p, name p) \<mapsto> get_stock (inventories w ?r) p + 2 * quantity)\<rparr>),
         databases := (databases w)
            (database (facade self) := (databases w (database (facade self)))
               \<lparr>supplies := supplies (databases w (database (facade self))) @ [(name p, quantity)]\<rparr>),
         console := console w @
            [StorekeeperStarts,
             Scanning (name p), CheckPassed, Placing quantity (name p), MaintenanceDone,
             ProcessingSupply (name p) quantity,
             RegisteringSupply (name p) quantity,
             StockCheck (name p) (get_stock (inventories w ?r) p + 2 * quantity),
             SupplySaved (name p) quantity,
             SupplyProcessed]\<rparr>"
    using assms
    by (simp add: receive_supply_def facade_defs receiving_defs world_defs get_stock_add_stock
        add_stock_twice Let_def)
  show ?thesis using world stock by simp
qed

theorem receive_supply_adds_twice_witness:
  "(0::int) < 10
   \<and> get_stock (inventories
         (receive_supply
            \<lparr>facade = \<lparr>inventory = 0, database = 0\<rparr>,
             receiving_process = StorekeeperReceivingProcess 0\<rparr>
            (Clothing ''Shirt'' 500) 10
            \<lparr>inventories = (\<lambda>r. Inventory_init), databases = (\<lambda>r. Database_init),
             console = []\<rparr>) 0)
        (Clothing ''Shirt'' 500) = 20
   \<and> supplies (databases
         (receive_supply
            \<lparr>facade = \<lparr>inventory = 0, database = 0\<rparr>,
             receiving_process = StorekeeperReceivingProcess 0\<rparr>
            (Clothing ''Shirt'' 500) 10
            \<lparr>inventories = (\<lambda>r. Inventory_init), databases = (\<lambda>r. Database_init),
             console = []\<rparr>) 0)
       = [(''Shirt'', 10)]"
  using receive_supply_adds_twice [of 10
      "\<lparr>facade = \<lparr>inventory = 0, database = 0\<rparr>,
        receiving_process = StorekeeperReceivingProcess 0\<rparr>"
      "Clothing ''Shirt'' 500"
      "\<lparr>inventories = (\<lambda>r. Inventory_init), databases = (\<lambda>r. Database_init), console = []\<rparr>"]
  by (simp add: get_stock_def dict_get_def Inventory_init_def Database_init_def)

end
